theory Spec2Isabelle
  imports Complex_Main
begin

section \<open>The C float type\<close>

text \<open>
  A C \<^verbatim>\<open>float\<close> is either a finite number or one of the IEEE 754 special values.
  Finite values are modelled as real numbers. The operations of this section are exact on
  them: rounding, overflow, underflow and the sign of zero are not modelled. The special
  values are kept, because the programs below reach them: \<^verbatim>\<open>0.f/0.f\<close> and the
  square root of a negative number are NaN, and NaN propagates through all arithmetic and
  makes every comparison false. The exact operations serve the properties that do not
  depend on rounding; the operations with rounding, and binary32 rounding itself, follow
  in a section of their own.
\<close>

datatype cfloat = Fin real | PInf | NInf | NaN

fun fneg :: "cfloat \<Rightarrow> cfloat" where
  "fneg (Fin x) = Fin (- x)"
| "fneg PInf = NInf"
| "fneg NInf = PInf"
| "fneg NaN = NaN"

fun fadd :: "cfloat \<Rightarrow> cfloat \<Rightarrow> cfloat" where
  "fadd NaN y = NaN"
| "fadd x NaN = NaN"
| "fadd (Fin x) (Fin y) = Fin (x + y)"
| "fadd PInf NInf = NaN"
| "fadd NInf PInf = NaN"
| "fadd PInf y = PInf"
| "fadd x PInf = PInf"
| "fadd NInf y = NInf"
| "fadd x NInf = NInf"

definition fsub :: "cfloat \<Rightarrow> cfloat \<Rightarrow> cfloat" where
  "fsub x y = fadd x (fneg y)"

text \<open>The sign of an infinity multiplied or divided by a finite number \<open>y\<close>.\<close>

definition inf_signed :: "bool \<Rightarrow> cfloat" where
  "inf_signed positive = (if positive then PInf else NInf)"

fun fmul :: "cfloat \<Rightarrow> cfloat \<Rightarrow> cfloat" where
  "fmul NaN y = NaN"
| "fmul x NaN = NaN"
| "fmul (Fin x) (Fin y) = Fin (x * y)"
| "fmul (Fin x) PInf = (if x = 0 then NaN else inf_signed (0 < x))"
| "fmul (Fin x) NInf = (if x = 0 then NaN else inf_signed (x < 0))"
| "fmul PInf (Fin y) = (if y = 0 then NaN else inf_signed (0 < y))"
| "fmul NInf (Fin y) = (if y = 0 then NaN else inf_signed (y < 0))"
| "fmul PInf PInf = PInf"
| "fmul NInf NInf = PInf"
| "fmul PInf NInf = NInf"
| "fmul NInf PInf = NInf"

text \<open>
  Division: a finite nonzero number over zero is an infinity (the zero is taken as
  \<open>+0\<close>), zero over zero and infinity over infinity are NaN, a finite number over an
  infinity is zero.
\<close>

fun fdiv :: "cfloat \<Rightarrow> cfloat \<Rightarrow> cfloat" where
  "fdiv NaN y = NaN"
| "fdiv x NaN = NaN"
| "fdiv (Fin x) (Fin y) =
     (if y \<noteq> 0 then Fin (x / y) else if x = 0 then NaN else inf_signed (0 < x))"
| "fdiv (Fin x) PInf = Fin 0"
| "fdiv (Fin x) NInf = Fin 0"
| "fdiv PInf (Fin y) = inf_signed (0 \<le> y)"
| "fdiv NInf (Fin y) = inf_signed (y < 0)"
| "fdiv PInf PInf = NaN"
| "fdiv PInf NInf = NaN"
| "fdiv NInf PInf = NaN"
| "fdiv NInf NInf = NaN"

text \<open>The comparisons \<^verbatim>\<open><\<close> and \<^verbatim>\<open><=\<close>: false as soon as one side is NaN.\<close>

fun flt :: "cfloat \<Rightarrow> cfloat \<Rightarrow> bool" where
  "flt NaN y = False"
| "flt x NaN = False"
| "flt (Fin x) (Fin y) = (x < y)"
| "flt x NInf = False"
| "flt PInf y = False"
| "flt NInf y = True"
| "flt x PInf = True"

fun fle :: "cfloat \<Rightarrow> cfloat \<Rightarrow> bool" where
  "fle NaN y = False"
| "fle x NaN = False"
| "fle (Fin x) (Fin y) = (x \<le> y)"
| "fle NInf y = True"
| "fle x PInf = True"
| "fle x NInf = False"
| "fle PInf y = False"

subsection \<open>The functions of \<^verbatim>\<open>math.h\<close> that the programs call\<close>

fun fabsf :: "cfloat \<Rightarrow> cfloat" where
  "fabsf (Fin x) = Fin \<bar>x\<bar>"
| "fabsf PInf = PInf"
| "fabsf NInf = PInf"
| "fabsf NaN = NaN"

text \<open>\<^verbatim>\<open>log10f\<close>: minus infinity at zero (pole error), NaN below zero (domain error).\<close>

fun log10f :: "cfloat \<Rightarrow> cfloat" where
  "log10f (Fin x) = (if 0 < x then Fin (log 10 x) else if x = 0 then NInf else NaN)"
| "log10f PInf = PInf"
| "log10f NInf = NaN"
| "log10f NaN = NaN"

text \<open>
  \<^verbatim>\<open>sqrtf\<close>: NaN below zero (domain error). HOL's \<^const>\<open>sqrt\<close> is odd
  (\<open>sqrt (- x) = - sqrt x\<close>), so the domain check has to be written out.
\<close>

fun sqrtf :: "cfloat \<Rightarrow> cfloat" where
  "sqrtf (Fin x) = (if 0 \<le> x then Fin (sqrt x) else NaN)"
| "sqrtf PInf = PInf"
| "sqrtf NInf = NaN"
| "sqrtf NaN = NaN"

text \<open>
  \<^verbatim>\<open>tanf\<close>: NaN at an infinity. At a pole of the tangent the exact value does not
  exist (HOL's \<^const>\<open>tan\<close> is \<open>0\<close> there); the model gives NaN.
\<close>

fun tanf :: "cfloat \<Rightarrow> cfloat" where
  "tanf (Fin x) = (if cos x = 0 then NaN else Fin (tan x))"
| "tanf PInf = NaN"
| "tanf NInf = NaN"
| "tanf NaN = NaN"

text \<open>
  \<^verbatim>\<open>powf\<close> on finite arguments. The program calls it on the literals \<^verbatim>\<open>10.f\<close> and
  \<^verbatim>\<open>-3.f/20.f\<close> only; the values C99 gives it at non-finite arguments are not
  modelled, the result there is NaN.
\<close>

fun powf :: "cfloat \<Rightarrow> cfloat \<Rightarrow> cfloat" where
  "powf (Fin x) (Fin y) =
     (if y = 0 then Fin 1
      else if 0 < x then Fin (x powr y)
      else if x = 0 then (if 0 < y then Fin 0 else PInf)
      else if y \<in> \<int> then Fin (power_int x \<lfloor>y\<rfloor>)
      else NaN)"
| "powf x y = NaN"

section \<open>The C/N0 estimator (Signal-to-Noise Variance method)\<close>

text \<open>
  Modelled from the spec: the declaration of \<^verbatim>\<open>cn0_est_state_t\<close>
  (\<^verbatim>\<open>libswiftnav/track.h\<close>) is not among the sources; the fields are the four that
  \<^verbatim>\<open>cn0_est_snv_init\<close> and \<^verbatim>\<open>cn0_est_snv_update\<close> read and write, which are the
  four of the data model.
\<close>

record cn0_est_state_t =
  log_bw :: cfloat
  I_prev_abs :: cfloat
  Q_prev_abs :: cfloat
  cn0 :: cfloat

definition CN0_SNV_NSR_MIN_MULTIPLIER :: cfloat where
  "CN0_SNV_NSR_MIN_MULTIPLIER = Fin (1 / 1000000)"

definition CN0_SNV_NSR_MIN :: cfloat where
  "CN0_SNV_NSR_MIN = Fin 1000000"

text \<open>
  \<^verbatim>\<open>cn0_est_snv_init\<close> clears the struct and then assigns all four fields; the model
  returns the state.
\<close>

definition cn0_est_snv_init :: "cfloat \<Rightarrow> cfloat \<Rightarrow> cfloat \<Rightarrow> cfloat \<Rightarrow> cn0_est_state_t" where
  "cn0_est_snv_init bw cn0_0 f_s f_i =
     \<lparr> log_bw = fmul (Fin 10) (log10f (fdiv (fmul bw f_i) f_s)),
       I_prev_abs = fneg (Fin 1),
       Q_prev_abs = fneg (Fin 1),
       cn0 = cn0_0 \<rparr>"

text \<open>
  \<^verbatim>\<open>cn0_est_snv_update\<close> mutates the state through the pointer and returns
  \<^verbatim>\<open>s->cn0\<close>; the model returns the value and the new state.
\<close>

definition cn0_est_snv_update ::
  "cn0_est_state_t \<Rightarrow> cfloat \<Rightarrow> cfloat \<Rightarrow> cfloat \<times> cn0_est_state_t" where
  "cn0_est_snv_update s I Q =
     (let I_abs = fabsf I;
          Q_abs = fabsf Q;
          I_prev = I_prev_abs s;
          Q_prev = Q_prev_abs s;
          s1 = s\<lparr>I_prev_abs := I_abs, Q_prev_abs := Q_abs\<rparr>
      in if flt I_prev (Fin 0) then (cn0 s1, s1)
         else
           let P_half = fmul (Fin 0.5) (fadd I_abs I_prev);
               P_s = fmul P_half P_half;
               P_tot = fmul (Fin 0.5)
                         (fadd (fadd (fadd (fmul Q_prev Q_prev) (fmul I_prev I_prev))
                                     (fmul Q_abs Q_abs))
                               (fmul I_abs I_abs));
               P_n = fsub P_tot P_s;
               nsr = (if flt P_s (fmul P_n CN0_SNV_NSR_MIN_MULTIPLIER)
                      then CN0_SNV_NSR_MIN
                      else fdiv P_tot P_s);
               nsr_db = fmul (Fin 10) (log10f nsr);
               s2 = s1\<lparr>cn0 := fsub (log_bw s1) nsr_db\<rparr>
           in (cn0 s2, s2))"

text \<open>
  The tracking loop calls the update once per epoch; \<open>cn0_feed\<close> is that loop over a
  list of correlator outputs \<open>(I, Q)\<close>: it returns the values the calls returned, in
  order, and the final state.
\<close>

fun cn0_feed ::
  "cn0_est_state_t \<Rightarrow> (cfloat \<times> cfloat) list \<Rightarrow> cfloat list \<times> cn0_est_state_t" where
  "cn0_feed s [] = ([], s)"
| "cn0_feed s (iq # iqs) =
     (fst (cn0_est_snv_update s (fst iq) (snd iq))
        # fst (cn0_feed (snd (cn0_est_snv_update s (fst iq) (snd iq))) iqs),
      snd (cn0_feed (snd (cn0_est_snv_update s (fst iq) (snd iq))) iqs))"

section \<open>The first-order low-pass filter\<close>

text \<open>
  Modelled from the spec: the declaration of \<^verbatim>\<open>lp1_filter_t\<close>
  (\<^verbatim>\<open>libswiftnav/track.h\<close>) is not among the sources; the fields are the four that
  \<^verbatim>\<open>lp1_filter_init\<close> and \<^verbatim>\<open>lp1_filter_update\<close> read and write, which are the
  four of the data model.
\<close>

record lp1_filter_t =
  a :: cfloat
  b :: cfloat
  xn :: cfloat
  yn :: cfloat

definition M_PI :: cfloat where
  "M_PI = Fin pi"

text \<open>
  The locals of \<^verbatim>\<open>lp1_filter_init\<close>, one definition per line of the source:
  \<^verbatim>\<open>Ts\<close>, \<^verbatim>\<open>wp\<close>, \<^verbatim>\<open>Op\<close>, \<^verbatim>\<open>Ap\<close>, the argument of \<^verbatim>\<open>sqrtf\<close>,
  \<^verbatim>\<open>Oc\<close> and \<^verbatim>\<open>tmp\<close>.
\<close>

definition lp1_Ts :: "cfloat \<Rightarrow> cfloat" where
  "lp1_Ts loop_freq = fdiv (Fin 1) loop_freq"

definition lp1_wp :: "cfloat \<Rightarrow> cfloat \<Rightarrow> cfloat" where
  "lp1_wp cutoff_freq loop_freq =
     fmul (fmul (fmul (fmul (Fin 10) cutoff_freq) (Fin 2)) M_PI) (lp1_Ts loop_freq)"

definition lp1_Op :: "cfloat \<Rightarrow> cfloat \<Rightarrow> cfloat" where
  "lp1_Op cutoff_freq loop_freq =
     fmul (fdiv (Fin 1) (fmul M_PI (lp1_Ts loop_freq)))
          (tanf (fdiv (lp1_wp cutoff_freq loop_freq) (Fin 2)))"

definition lp1_Ap :: cfloat where
  "lp1_Ap = powf (Fin 10) (fdiv (fneg (Fin 3)) (Fin 20))"

definition lp1_sqrt_arg :: cfloat where
  "lp1_sqrt_arg = fdiv (Fin 1) (fsub (fmul lp1_Ap lp1_Ap) (Fin 1))"

definition lp1_Oc :: "cfloat \<Rightarrow> cfloat \<Rightarrow> cfloat" where
  "lp1_Oc cutoff_freq loop_freq = fdiv (lp1_Op cutoff_freq loop_freq) (sqrtf lp1_sqrt_arg)"

definition lp1_tmp :: "cfloat \<Rightarrow> cfloat \<Rightarrow> cfloat" where
  "lp1_tmp cutoff_freq loop_freq = fmul (lp1_Oc cutoff_freq loop_freq) (lp1_Ts loop_freq)"

text \<open>
  \<^verbatim>\<open>lp1_filter_init\<close> clears the struct and assigns all four fields. In the source
  the assignment to \<^verbatim>\<open>f->a\<close> has lost its terminating semicolon; it is read as the
  assignment statement it is.
\<close>

definition lp1_filter_init :: "cfloat \<Rightarrow> cfloat \<Rightarrow> cfloat \<Rightarrow> lp1_filter_t" where
  "lp1_filter_init initial cutoff_freq loop_freq =
     (let tmp = lp1_tmp cutoff_freq loop_freq;
          f_b = fdiv (fneg tmp) (fsub (Fin 2) tmp);
          f_a = fdiv (fsub (fneg (Fin 2)) tmp) (fsub (Fin 2) tmp)
      in \<lparr> a = f_a, b = f_b, xn = fmul initial f_b, yn = initial \<rparr>)"

text \<open>
  \<^verbatim>\<open>lp1_filter_update\<close> mutates the filter through the pointer and returns
  \<^verbatim>\<open>f->yn\<close>; the model returns the value and the new filter.
\<close>

definition lp1_filter_update :: "lp1_filter_t \<Rightarrow> cfloat \<Rightarrow> cfloat \<times> lp1_filter_t" where
  "lp1_filter_update f val =
     (let tmp = fmul (b f) val;
          f1 = f\<lparr>yn := fsub (fadd tmp (xn f)) (fmul (a f) (yn f))\<rparr>;
          f2 = f1\<lparr>xn := tmp\<rparr>
      in (yn f2, f2))"

text \<open>The caller's loop: one update per sample, the returned values in order.\<close>

fun lp1_feed :: "lp1_filter_t \<Rightarrow> cfloat list \<Rightarrow> cfloat list \<times> lp1_filter_t" where
  "lp1_feed f [] = ([], f)"
| "lp1_feed f (v # vs) =
     (fst (lp1_filter_update f v) # fst (lp1_feed (snd (lp1_filter_update f v)) vs),
      snd (lp1_feed (snd (lp1_filter_update f v)) vs))"

section \<open>Arithmetic with rounding\<close>

text \<open>
  The operations above are exact on finite numbers. Where a property depends on how the
  result of an operation is rounded, they decide nothing about the C code, so the
  operations are given a second time with the rounding as a parameter \<open>rnd\<close>: the exact
  result of an operation on two finite numbers goes through \<open>rnd\<close>, which returns the
  float it is rounded to, or an infinity on overflow. The special values behave as before.
  With \<open>rnd = Fin\<close> these are the exact operations; with \<open>rnd = rnd32\<close> below they are the
  operations of IEEE 754 binary32 in the default rounding mode (the sign of zero apart).
\<close>

fun fadd_r :: "(real \<Rightarrow> cfloat) \<Rightarrow> cfloat \<Rightarrow> cfloat \<Rightarrow> cfloat" where
  "fadd_r rnd (Fin p) (Fin q) = rnd (p + q)"
| "fadd_r rnd x y = fadd x y"

definition fsub_r :: "(real \<Rightarrow> cfloat) \<Rightarrow> cfloat \<Rightarrow> cfloat \<Rightarrow> cfloat" where
  "fsub_r rnd x y = fadd_r rnd x (fneg y)"

fun fmul_r :: "(real \<Rightarrow> cfloat) \<Rightarrow> cfloat \<Rightarrow> cfloat \<Rightarrow> cfloat" where
  "fmul_r rnd (Fin p) (Fin q) = rnd (p * q)"
| "fmul_r rnd x y = fmul x y"

fun fdiv_r :: "(real \<Rightarrow> cfloat) \<Rightarrow> cfloat \<Rightarrow> cfloat \<Rightarrow> cfloat" where
  "fdiv_r rnd (Fin p) (Fin q) = (if q \<noteq> 0 then rnd (p / q) else fdiv (Fin p) (Fin q))"
| "fdiv_r rnd x y = fdiv x y"

text \<open>
  \<^verbatim>\<open>log10f\<close> with rounding is taken as the correctly rounded logarithm. What is proved
  below uses of it only that \<^verbatim>\<open>log10f(1.f)\<close> is zero and that \<^verbatim>\<open>log10f(x)\<close> is not
  zero at \<open>x = 2\<close> and at the float next after \<open>1\<close>.
\<close>

fun log10f_r :: "(real \<Rightarrow> cfloat) \<Rightarrow> cfloat \<Rightarrow> cfloat" where
  "log10f_r rnd (Fin x) = (if 0 < x then rnd (log 10 x) else log10f (Fin x))"
| "log10f_r rnd x = log10f x"

subsection \<open>Rounding to binary32\<close>

text \<open>
  Round to nearest, ties to even. \<open>rne\<close> rounds a real to the nearest integer, a tie
  to the even one. \<open>binade x\<close> is the exponent \<open>e\<close> with \<open>2^e \<le> |x| < 2^(e+1)\<close>, not
  below \<open>-126\<close> (the subnormal numbers share the exponent of the smallest normal ones).
  A binary32 number of that exponent is an integer multiple of \<open>2^(e-23)\<close>; \<open>rnd32 x\<close>
  is the nearest such multiple, and an infinity when that reaches \<open>2^128\<close>.
\<close>

definition rne :: "real \<Rightarrow> int" where
  "rne q = (let f = \<lfloor>q\<rfloor>; d = q - of_int f
            in if d < 1 / 2 then f
               else if 1 / 2 < d then f + 1
               else if even f then f else f + 1)"

definition binade :: "real \<Rightarrow> int" where
  "binade x = max \<lfloor>log 2 \<bar>x\<bar>\<rfloor> (- 126)"

definition rnd32 :: "real \<Rightarrow> cfloat" where
  "rnd32 x =
     (if x = 0 then Fin 0
      else let u = 2 powi (binade x - 23);
               r = of_int (rne (x / u)) * u
           in if 2 ^ 128 \<le> \<bar>r\<bar> then inf_signed (0 < x) else Fin r)"

text \<open>
  The properties of a rounding that the filter's decay law needs: zero is exact, rounding
  commutes with negation, a rounded value is a fixed point of the rounding, and the
  rounding of a non-negative number is not negative.
\<close>

definition ieee_rounding :: "(real \<Rightarrow> cfloat) \<Rightarrow> bool" where
  "ieee_rounding rnd \<longleftrightarrow>
     rnd 0 = Fin 0
     \<and> (\<forall>x. rnd (- x) = fneg (rnd x))
     \<and> (\<forall>x r. rnd x = Fin r \<longrightarrow> rnd r = Fin r)
     \<and> (\<forall>x. 0 \<le> x \<longrightarrow> fabsf (rnd x) = rnd x)"

subsection \<open>The estimator update with rounding\<close>

text \<open>
  \<^verbatim>\<open>cn0_est_snv_update\<close> once more, every operation rounded. The literals \<^verbatim>\<open>0.5f\<close>,
  \<^verbatim>\<open>10.f\<close> and \<^verbatim>\<open>1e6f\<close> are floats; \<^verbatim>\<open>1e-6f\<close> is not, the compiler rounds it.
\<close>

definition CN0_SNV_NSR_MIN_MULTIPLIER_r :: "(real \<Rightarrow> cfloat) \<Rightarrow> cfloat" where
  "CN0_SNV_NSR_MIN_MULTIPLIER_r rnd = rnd (1 / 1000000)"

definition cn0_est_snv_update_r ::
  "(real \<Rightarrow> cfloat) \<Rightarrow> cn0_est_state_t \<Rightarrow> cfloat \<Rightarrow> cfloat \<Rightarrow> cfloat \<times> cn0_est_state_t" where
  "cn0_est_snv_update_r rnd s I Q =
     (let I_abs = fabsf I;
          Q_abs = fabsf Q;
          I_prev = I_prev_abs s;
          Q_prev = Q_prev_abs s;
          s1 = s\<lparr>I_prev_abs := I_abs, Q_prev_abs := Q_abs\<rparr>
      in if flt I_prev (Fin 0) then (cn0 s1, s1)
         else
           let P_half = fmul_r rnd (Fin 0.5) (fadd_r rnd I_abs I_prev);
               P_s = fmul_r rnd P_half P_half;
               P_tot = fmul_r rnd (Fin 0.5)
                         (fadd_r rnd
                            (fadd_r rnd (fadd_r rnd (fmul_r rnd Q_prev Q_prev)
                                                    (fmul_r rnd I_prev I_prev))
                                        (fmul_r rnd Q_abs Q_abs))
                            (fmul_r rnd I_abs I_abs));
               P_n = fsub_r rnd P_tot P_s;
               nsr = (if flt P_s (fmul_r rnd P_n (CN0_SNV_NSR_MIN_MULTIPLIER_r rnd))
                      then CN0_SNV_NSR_MIN
                      else fdiv_r rnd P_tot P_s);
               nsr_db = fmul_r rnd (Fin 10) (log10f_r rnd nsr);
               s2 = s1\<lparr>cn0 := fsub_r rnd (log_bw s1) nsr_db\<rparr>
           in (cn0 s2, s2))"

subsection \<open>The update as the specification words it\<close>

text \<open>
  The reference definition of the update past the bootstrap, written from the
  specification and not from the code: the signal power is the square of the mean
  magnitude, the total power sums the squares in the order previous I, previous Q,
  I, Q, the clamp tests \<open>P_s < (P_tot - P_s) * 1e-6\<close>, and the new estimate is
  \<open>log_bw - 10 * log10 nsr\<close>, returned and stored together with the new previous pair.
\<close>

definition fsq_r :: "(real \<Rightarrow> cfloat) \<Rightarrow> cfloat \<Rightarrow> cfloat" where
  "fsq_r rnd x = fmul_r rnd x x"

definition cn0_update_reference_r ::
  "(real \<Rightarrow> cfloat) \<Rightarrow> cn0_est_state_t \<Rightarrow> cfloat \<Rightarrow> cfloat \<Rightarrow> cfloat \<times> cn0_est_state_t" where
  "cn0_update_reference_r rnd s I Q =
     (let absI = fabsf I;
          absQ = fabsf Q;
          prevAbsI = I_prev_abs s;
          prevAbsQ = Q_prev_abs s;
          P_s = fsq_r rnd (fmul_r rnd (Fin 0.5) (fadd_r rnd absI prevAbsI));
          P_tot = fmul_r rnd (Fin 0.5)
                    (fadd_r rnd
                       (fadd_r rnd (fadd_r rnd (fsq_r rnd prevAbsI) (fsq_r rnd prevAbsQ))
                                   (fsq_r rnd absI))
                       (fsq_r rnd absQ));
          nsr = (if flt P_s (fmul_r rnd (fsub_r rnd P_tot P_s) (rnd (1 / 1000000)))
                 then Fin 1000000
                 else fdiv_r rnd P_tot P_s);
          cn0_new = fsub_r rnd (log_bw s) (fmul_r rnd (Fin 10) (log10f_r rnd nsr))
      in (cn0_new, s\<lparr>I_prev_abs := absI, Q_prev_abs := absQ, cn0 := cn0_new\<rparr>))"

text \<open>
  The same with one change: in the total power the square of \<open>|Q|\<close> is added before
  the square of \<open>|I|\<close>.
\<close>

definition cn0_update_amended_r ::
  "(real \<Rightarrow> cfloat) \<Rightarrow> cn0_est_state_t \<Rightarrow> cfloat \<Rightarrow> cfloat \<Rightarrow> cfloat \<times> cn0_est_state_t" where
  "cn0_update_amended_r rnd s I Q =
     (let absI = fabsf I;
          absQ = fabsf Q;
          prevAbsI = I_prev_abs s;
          prevAbsQ = Q_prev_abs s;
          P_s = fsq_r rnd (fmul_r rnd (Fin 0.5) (fadd_r rnd absI prevAbsI));
          P_tot = fmul_r rnd (Fin 0.5)
                    (fadd_r rnd
                       (fadd_r rnd (fadd_r rnd (fsq_r rnd prevAbsI) (fsq_r rnd prevAbsQ))
                                   (fsq_r rnd absQ))
                       (fsq_r rnd absI));
          nsr = (if flt P_s (fmul_r rnd (fsub_r rnd P_tot P_s) (rnd (1 / 1000000)))
                 then Fin 1000000
                 else fdiv_r rnd P_tot P_s);
          cn0_new = fsub_r rnd (log_bw s) (fmul_r rnd (Fin 10) (log10f_r rnd nsr))
      in (cn0_new, s\<lparr>I_prev_abs := absI, Q_prev_abs := absQ, cn0 := cn0_new\<rparr>))"

subsection \<open>The filter update with rounding\<close>

definition lp1_filter_update_r ::
  "(real \<Rightarrow> cfloat) \<Rightarrow> lp1_filter_t \<Rightarrow> cfloat \<Rightarrow> cfloat \<times> lp1_filter_t" where
  "lp1_filter_update_r rnd f val =
     (let tmp = fmul_r rnd (b f) val;
          f1 = f\<lparr>yn := fsub_r rnd (fadd_r rnd tmp (xn f)) (fmul_r rnd (a f) (yn f))\<rparr>;
          f2 = f1\<lparr>xn := tmp\<rparr>
      in (yn f2, f2))"

fun lp1_feed_r ::
  "(real \<Rightarrow> cfloat) \<Rightarrow> lp1_filter_t \<Rightarrow> cfloat list \<Rightarrow> cfloat list \<times> lp1_filter_t" where
  "lp1_feed_r rnd f [] = ([], f)"
| "lp1_feed_r rnd f (v # vs) =
     (fst (lp1_filter_update_r rnd f v)
        # fst (lp1_feed_r rnd (snd (lp1_filter_update_r rnd f v)) vs),
      snd (lp1_feed_r rnd (snd (lp1_filter_update_r rnd f v)) vs))"

text \<open>
  The geometric sequence of ratio \<open>ratio\<close> after \<open>y\<close>, \<open>n\<close> terms, each term one float
  multiplication of the term before it.
\<close>

fun fgeom_r :: "(real \<Rightarrow> cfloat) \<Rightarrow> cfloat \<Rightarrow> cfloat \<Rightarrow> nat \<Rightarrow> cfloat list" where
  "fgeom_r rnd ratio y 0 = []"
| "fgeom_r rnd ratio y (Suc n) = fmul_r rnd ratio y # fgeom_r rnd ratio (fmul_r rnd ratio y) n"

text \<open>
  The states in which the delayed input has been flushed by an update with \<open>0\<close>: then
  \<open>xn\<close> is what \<open>b * 0\<close> is, zero for a finite \<open>b\<close>; for a \<open>b\<close> that is an infinity or
  NaN it is NaN, and so is \<open>yn\<close>.
\<close>

definition lp1_flushed :: "(real \<Rightarrow> cfloat) \<Rightarrow> lp1_filter_t \<Rightarrow> bool" where
  "lp1_flushed rnd f \<longleftrightarrow>
     fmul_r rnd (b f) (Fin 0) = Fin 0 \<and> xn f = Fin 0
     \<or> fmul_r rnd (b f) (Fin 0) = NaN \<and> xn f = NaN \<and> yn f = NaN"

section \<open>Facts about float arithmetic\<close>

lemma fadd_commute: "fadd x y = fadd y x"
  by (cases x; cases y; simp)

lemma fadd_assoc: "fadd (fadd x y) z = fadd x (fadd y z)"
  by (cases x; cases y; cases z; simp)

lemma fadd_NaN_right [simp]: "fadd x NaN = NaN"
  by (cases x; simp)

lemma fmul_NaN_right [simp]: "fmul x NaN = NaN"
  by (cases x; simp)

lemma fdiv_NaN_right [simp]: "fdiv x NaN = NaN"
  by (cases x; simp)

lemma fsub_NaN_right [simp]: "fsub x NaN = NaN"
  by (simp add: fsub_def)

lemma fsub_NaN_left [simp]: "fsub NaN x = NaN"
  by (simp add: fsub_def)

lemma flt_NaN_right [simp]: "flt x NaN = False"
  by (cases x; simp)

lemma fsub_zero_left: "fsub (Fin 0) z = fneg z"
  by (cases z; simp add: fsub_def)

lemma fsub_zero_right: "fsub z (Fin 0) = z"
  by (cases z; simp add: fsub_def)

lemma fneg_fmul: "fneg (fmul x y) = fmul (fneg x) y"
  by (cases x; cases y; simp add: inf_signed_def)

lemma fle_zero_not_flt: "fle (Fin 0) x \<Longrightarrow> \<not> flt x (Fin 0)"
  by (cases x; simp)

lemma fabsf_not_neg: "\<not> flt (fabsf x) (Fin 0)"
  by (cases x; simp)

lemma fabsf_nonneg: "x \<noteq> NaN \<Longrightarrow> fle (Fin 0) (fabsf x)"
  by (cases x; simp)

lemma log10_thousandth: "log 10 (1 / 1000) = - 3"
proof -
  have "log 10 (1 / 1000) = log 10 (10 powr (- 3))"
    by (simp add: powr_minus_divide)
  also have "\<dots> = - 3" by simp
  finally show ?thesis .
qed

lemma log10_2_neq_0: "log 10 (2::real) \<noteq> 0"
proof -
  have "0 < log 10 (2::real)" by simp
  then show ?thesis by linarith
qed

section \<open>Facts about rounding\<close>

subsection \<open>Any rounding\<close>

lemma exact_ops:
  "fadd_r Fin x y = fadd x y" "fsub_r Fin x y = fsub x y" "fmul_r Fin x y = fmul x y"
  "fdiv_r Fin x y = fdiv x y" "log10f_r Fin x = log10f x"
  by (cases x; cases y; simp add: fsub_r_def fsub_def)+

lemma ieee_zero: "ieee_rounding rnd \<Longrightarrow> rnd 0 = Fin 0"
  and ieee_minus: "ieee_rounding rnd \<Longrightarrow> rnd (- x) = fneg (rnd x)"
  and ieee_idem: "ieee_rounding rnd \<Longrightarrow> rnd x = Fin r \<Longrightarrow> rnd r = Fin r"
  and ieee_nonneg: "ieee_rounding rnd \<Longrightarrow> 0 \<le> x \<Longrightarrow> fabsf (rnd x) = rnd x"
  by (simp_all add: ieee_rounding_def)

lemma fadd_r_commute: "fadd_r rnd x y = fadd_r rnd y x"
  by (cases x; cases y; simp add: add.commute)

lemma fadd_r_NaN [simp]: "fadd_r rnd NaN y = NaN" "fadd_r rnd x NaN = NaN"
  by (cases y; simp) (cases x; simp)

lemma fsub_r_NaN [simp]: "fsub_r rnd NaN y = NaN" "fsub_r rnd x NaN = NaN"
  by (simp_all add: fsub_r_def)

lemma fmul_r_NaN [simp]: "fmul_r rnd NaN y = NaN" "fmul_r rnd x NaN = NaN"
  by (cases y; simp) (cases x; simp)

lemma fabsf_fneg [simp]: "fabsf (fneg x) = fabsf x"
  by (cases x; simp)

lemma fmul_r_fneg:
  assumes "ieee_rounding rnd"
  shows "fmul_r rnd (fneg x) y = fneg (fmul_r rnd x y)"
  using assms by (cases x; cases y; simp add: ieee_rounding_def inf_signed_def)

lemma fmul_r_rounded:
  assumes "ieee_rounding rnd" "fmul_r rnd x y = Fin r"
  shows "rnd r = Fin r"
  using assms by (cases x; cases y; auto simp add: ieee_rounding_def inf_signed_def split: if_splits)

lemma fsub_r_zero_left:
  assumes "ieee_rounding rnd" "\<And>r. z = Fin r \<Longrightarrow> rnd r = Fin r"
  shows "fsub_r rnd (Fin 0) z = fneg z"
  using assms by (cases z; simp add: fsub_r_def ieee_rounding_def)

lemma fmul_r_zero_cases:
  assumes "ieee_rounding rnd"
  shows "fmul_r rnd x (Fin 0) = Fin 0 \<or> fmul_r rnd x (Fin 0) = NaN"
  using assms by (cases x) (simp_all add: ieee_zero)

lemma fabsf_rnd:
  assumes "ieee_rounding rnd"
  shows "fabsf (rnd x) = rnd \<bar>x\<bar>"
proof (cases "0 \<le> x")
  case True
  then show ?thesis using assms by (simp add: ieee_rounding_def)
next
  case False
  then have "0 \<le> - x" by simp
  then have "fabsf (rnd (- x)) = rnd (- x)" by (rule ieee_nonneg [OF assms])
  moreover have "fabsf (rnd (- x)) = fabsf (rnd x)"
    by (simp only: ieee_minus [OF assms] fabsf_fneg)
  ultimately show ?thesis using False by (simp add: abs_if)
qed

lemma fabsf_fmul_r:
  assumes "ieee_rounding rnd"
  shows "fabsf (fmul_r rnd x y) = fmul_r rnd (fabsf x) (fabsf y)"
  using fabsf_rnd [OF assms]
  by (cases x; cases y; simp add: abs_mult inf_signed_def)

lemma ieee_rounding_exact: "ieee_rounding Fin"
  by (simp add: ieee_rounding_def)

subsection \<open>Rounding to the nearest integer\<close>

lemma floor_bounds: "of_int \<lfloor>q\<rfloor> \<le> q" "q < of_int \<lfloor>q\<rfloor> + 1"
  by linarith+

lemma rne_of_int [simp]: "rne (of_int n) = n"
  by (simp add: rne_def)

lemma rne_cases: "rne q = \<lfloor>q\<rfloor> \<or> rne q = \<lfloor>q\<rfloor> + 1"
  by (simp add: rne_def Let_def)

lemma rne_close: "\<bar>of_int (rne q) - q\<bar> \<le> 1 / 2"
  using floor_bounds [of q] by (auto simp add: rne_def Let_def)

lemma rne_ge: "of_int m \<le> q \<Longrightarrow> m \<le> rne q"
proof -
  assume "of_int m \<le> q"
  then have "m \<le> \<lfloor>q\<rfloor>" by (simp add: le_floor_iff)
  then show ?thesis using rne_cases [of q] by auto
qed

lemma rne_le: "q \<le> of_int m \<Longrightarrow> rne q \<le> m"
proof (cases "q = of_int m")
  case True
  then show ?thesis by simp
next
  case False
  assume "q \<le> of_int m"
  with False have "q < of_int m" by simp
  then have "\<lfloor>q\<rfloor> < m" by (simp add: floor_less_iff)
  then show ?thesis using rne_cases [of q] by auto
qed

lemma rne_minus: "rne (- q) = - rne q"
proof (cases "q = of_int \<lfloor>q\<rfloor>")
  case True
  then have "rne q = \<lfloor>q\<rfloor>" by (metis rne_of_int)
  moreover have "rne (- q) = - \<lfloor>q\<rfloor>"
    using True by (metis rne_of_int of_int_minus)
  ultimately show ?thesis by simp
next
  case False
  then have fl: "\<lfloor>- q\<rfloor> = - \<lfloor>q\<rfloor> - 1"
    by (simp add: floor_minus ceiling_altdef)
  have d: "- q - of_int (- \<lfloor>q\<rfloor> - 1) = 1 - (q - of_int \<lfloor>q\<rfloor>)" by simp
  show ?thesis
    unfolding rne_def Let_def fl d by auto
qed

subsection \<open>The exponent\<close>

lemma powi_split: "(2::real) powi (k + 1) = 2 ^ 24 * 2 powi (k - 23)"
  "(2::real) powi k = 2 ^ 23 * 2 powi (k - 23)"
proof -
  have "(2::real) powi ((k - 23) + 24) = 2 powi (k - 23) * 2 powi 24"
    by (rule power_int_add) simp
  then show "(2::real) powi (k + 1) = 2 ^ 24 * 2 powi (k - 23)"
    by (simp add: algebra_simps)
  have "(2::real) powi ((k - 23) + 23) = 2 powi (k - 23) * 2 powi 23"
    by (rule power_int_add) simp
  then show "(2::real) powi k = 2 ^ 23 * 2 powi (k - 23)"
    by (simp add: algebra_simps)
qed

lemma binade_ge: "- 126 \<le> binade x"
  by (simp add: binade_def)

lemma binade_minus [simp]: "binade (- x) = binade x"
  by (simp add: binade_def)

lemma binade_eq:
  assumes "2 powi k \<le> \<bar>x\<bar>" "\<bar>x\<bar> < 2 powi (k + 1)" "- 126 \<le> k"
  shows "binade x = k"
proof -
  have pos: "0 < \<bar>x\<bar>" using assms(1) by (smt (verit) zero_less_power_int)
  have p1: "2 powr (of_int k) = (2::real) powi k"
    by (simp add: powr_real_of_int')
  have p2: "2 powr (of_int k + 1) = (2::real) powi (k + 1)"
    using powr_real_of_int' [of 2 "k + 1"] by simp
  have "\<lfloor>log 2 \<bar>x\<bar>\<rfloor> = k"
    using assms pos by (simp add: floor_log_eq_powr_iff p1 p2)
  then show ?thesis using assms(3) by (simp add: binade_def)
qed

lemma binade_bounds:
  assumes "x \<noteq> 0"
  shows "\<bar>x\<bar> < 2 powi (binade x + 1)"
    and "2 powi (binade x) \<le> \<bar>x\<bar> \<or> binade x = - 126"
proof -
  define k where "k = \<lfloor>log 2 \<bar>x\<bar>\<rfloor>"
  have pos: "0 < \<bar>x\<bar>" using assms by simp
  have p2: "2 powr (of_int k + 1) = (2::real) powi (k + 1)"
    using powr_real_of_int' [of 2 "k + 1"] by simp
  have "2 powr (of_int k) \<le> \<bar>x\<bar> \<and> \<bar>x\<bar> < 2 powr (of_int k + 1)"
    using floor_log_eq_powr_iff [of "\<bar>x\<bar>" 2 k] pos by (simp add: k_def)
  then have kb: "2 powi k \<le> \<bar>x\<bar>" "\<bar>x\<bar> < 2 powi (k + 1)"
    by (simp_all add: powr_real_of_int' p2)
  have bk: "binade x = max k (- 126)" by (simp add: binade_def k_def)
  have "(2::real) powi (k + 1) \<le> 2 powi (binade x + 1)"
    by (rule power_int_increasing) (simp_all add: bk)
  then show "\<bar>x\<bar> < 2 powi (binade x + 1)" using kb(2) by linarith
  show "2 powi (binade x) \<le> \<bar>x\<bar> \<or> binade x = - 126"
    using kb(1) bk by (cases "- 126 \<le> k") (simp_all add: max_def)
qed

lemma binade_subnormal:
  assumes "r \<noteq> 0" "\<bar>r\<bar> < 2 powi (- 126)"
  shows "binade r = - 126"
proof -
  have "\<not> 2 powi (binade r) \<le> \<bar>r\<bar>"
  proof
    assume "2 powi (binade r) \<le> \<bar>r\<bar>"
    moreover have "(2::real) powi (- 126) \<le> 2 powi (binade r)"
      by (rule power_int_increasing) (simp_all add: binade_ge)
    ultimately show False using assms(2) by linarith
  qed
  then show ?thesis using binade_bounds(2) [OF assms(1)] by blast
qed

subsection \<open>Rounding to binary32\<close>

text \<open>Evaluation: the rounding of a number whose exponent is known.\<close>

lemma rnd32_eval:
  assumes "2 powi k \<le> \<bar>x\<bar>" "\<bar>x\<bar> < 2 powi (k + 1)" "- 126 \<le> k"
    and "rne (x / 2 powi (k - 23)) = n"
    and "\<bar>of_int n * 2 powi (k - 23)\<bar> < (2::real) ^ 128"
  shows "rnd32 x = Fin (of_int n * 2 powi (k - 23))"
proof -
  have "x \<noteq> 0" using assms(1) by (smt (verit) zero_less_power_int abs_zero)
  then show ?thesis
    using assms(4,5) binade_eq [OF assms(1-3)] by (simp add: rnd32_def Let_def)
qed

lemma rnd32_exact:
  assumes "binade r = k" "r = of_int m * 2 powi (k - 23)" "\<bar>r\<bar> < 2 ^ 128"
  shows "rnd32 r = Fin r"
proof (cases "r = 0")
  case True
  then show ?thesis by (simp add: rnd32_def)
next
  case False
  have "r / 2 powi (k - 23) = of_int m"
    using assms(2) by simp
  then show ?thesis
    using False assms by (simp add: rnd32_def Let_def)
qed

lemma mantissa_bounds:
  assumes "x \<noteq> 0"
  defines "n \<equiv> rne (x / 2 powi (binade x - 23))"
  shows "\<bar>n\<bar> \<le> 2 ^ 24"
    and "2 powi (binade x) \<le> \<bar>x\<bar> \<Longrightarrow> 2 ^ 23 \<le> \<bar>n\<bar>"
    and "0 < x \<Longrightarrow> 0 \<le> n" and "x < 0 \<Longrightarrow> n \<le> 0"
proof -
  define u where "u = (2::real) powi (binade x - 23)"
  have u: "0 < u" by (simp add: u_def)
  define q where "q = x / u"
  have n: "n = rne q" by (simp add: n_def q_def u_def)
  have "\<bar>x\<bar> < 2 ^ 24 * u"
    using binade_bounds(1) [OF assms(1)] by (simp add: powi_split(1) u_def)
  then have qa: "\<bar>q\<bar> < 2 ^ 24"
    using u by (simp add: q_def field_simps)
  have qb: "q \<le> of_int (2 ^ 24)" "of_int (- (2 ^ 24)) \<le> q"
    using qa by simp_all
  have "rne q \<le> 2 ^ 24" "- (2 ^ 24) \<le> rne q"
    using rne_le [OF qb(1)] rne_ge [OF qb(2)] by simp_all
  then show "\<bar>n\<bar> \<le> 2 ^ 24" by (simp add: n)
  show "0 \<le> n" if "0 < x"
  proof -
    have "of_int 0 \<le> q" using that u by (simp add: q_def)
    then show ?thesis unfolding n by (rule rne_ge)
  qed
  show "n \<le> 0" if "x < 0"
  proof -
    have "q \<le> of_int 0" using that u by (simp add: q_def field_simps)
    then show ?thesis unfolding n by (rule rne_le)
  qed
  show "2 ^ 23 \<le> \<bar>n\<bar>" if "2 powi (binade x) \<le> \<bar>x\<bar>"
  proof -
    have "2 ^ 23 * u \<le> \<bar>x\<bar>"
      using that by (simp add: powi_split(2) [of "binade x"] u_def)
    then have ql: "2 ^ 23 \<le> \<bar>q\<bar>"
      using u by (simp add: q_def field_simps)
    show ?thesis
    proof (cases "0 \<le> q")
      case True
      then have "of_int (2 ^ 23) \<le> q" using ql by simp
      then have "2 ^ 23 \<le> rne q" by (rule rne_ge)
      then show ?thesis by (simp add: n)
    next
      case False
      then have "q \<le> of_int (- (2 ^ 23))" using ql by simp
      then have "rne q \<le> - (2 ^ 23)" by (rule rne_le)
      then show ?thesis by (simp add: n)
    qed
  qed
qed

lemma rnd32_zero: "rnd32 0 = Fin 0"
  by (simp add: rnd32_def)

lemma rnd32_minus: "rnd32 (- x) = fneg (rnd32 x)"
proof (cases "x = 0")
  case True
  then show ?thesis by (simp add: rnd32_def)
next
  case False
  then show ?thesis
    by (auto simp add: rnd32_def Let_def rne_minus inf_signed_def)
qed

lemma rnd32_nonneg: "0 \<le> x \<Longrightarrow> fabsf (rnd32 x) = rnd32 x"
proof (cases "x = 0")
  case True
  then show ?thesis by (simp add: rnd32_def)
next
  case False
  assume "0 \<le> x"
  with False have pos: "0 < x" by simp
  have "0 \<le> rne (x / 2 powi (binade x - 23))"
    using mantissa_bounds(3) [OF False pos] .
  then show ?thesis
    using pos by (simp add: rnd32_def Let_def inf_signed_def)
qed

text \<open>A value that binary32 rounding returns is a binary32 number: it rounds to itself.\<close>

lemma rnd32_idem:
  assumes "rnd32 x = Fin r"
  shows "rnd32 r = Fin r"
proof (cases "x = 0")
  case True
  then show ?thesis using assms by (auto simp add: rnd32_def)
next
  case False
  define e where "e = binade x"
  define u where "u = (2::real) powi (e - 23)"
  define n where "n = rne (x / 2 powi (binade x - 23))"
  have u: "0 < u" by (simp add: u_def)
  have r: "r = of_int n * u" and fin: "\<bar>r\<bar> < 2 ^ 128"
    using assms False
    by (auto simp add: rnd32_def Let_def n_def u_def e_def inf_signed_def split: if_splits)
  have absr: "\<bar>r\<bar> = of_int \<bar>n\<bar> * u"
    using u by (simp add: r abs_mult)
  have nb: "\<bar>n\<bar> \<le> 2 ^ 24"
    unfolding n_def by (rule mantissa_bounds(1) [OF False])
  have e: "- 126 \<le> e" by (simp add: e_def binade_ge)
  consider (top) "\<bar>n\<bar> = 2 ^ 24" | (normal) "2 ^ 23 \<le> \<bar>n\<bar>" "\<bar>n\<bar> < 2 ^ 24"
    | (sub) "\<bar>n\<bar> < 2 ^ 23"
    using nb by linarith
  then show ?thesis
  proof cases
    case top
    have ar: "\<bar>r\<bar> = 2 powi (e + 1)"
      by (simp add: absr top powi_split(1) u_def)
    have "(2::real) powi (e + 1) < 2 powi (e + 1 + 1)"
      by (rule power_int_strict_increasing) simp_all
    then have be: "binade r = e + 1"
      using ar e by (intro binade_eq) simp_all
    have "n = 2 * 2 ^ 23 \<or> n = 2 * (- (2 ^ 23))"
      using top by (simp add: abs_if split: if_splits)
    then obtain m where m: "n = 2 * m" by blast
    have "(2::real) powi ((e - 23) + 1) = 2 powi (e - 23) * 2 powi 1"
      by (rule power_int_add) simp
    then have "r = of_int m * 2 powi (e + 1 - 23)"
      by (simp add: r m u_def algebra_simps)
    then show ?thesis using be fin by (intro rnd32_exact [where k = "e + 1" and m = m])
  next
    case normal
    have lo: "2 powi e \<le> \<bar>r\<bar>"
      using normal(1) u by (simp add: absr powi_split(2) [of e] u_def)
    have hi: "\<bar>r\<bar> < 2 powi (e + 1)"
      using normal(2) u by (simp add: absr powi_split(1) [of e] u_def)
    have "binade r = e" using lo hi e by (rule binade_eq)
    then show ?thesis
      using r fin by (intro rnd32_exact [where k = e and m = n]) (simp_all add: u_def)
  next
    case sub
    show ?thesis
    proof (cases "n = 0")
      case True
      then show ?thesis by (simp add: r rnd32_def)
    next
      case n0: False
      have "\<not> 2 powi (binade x) \<le> \<bar>x\<bar>"
        using mantissa_bounds(2) [OF False] sub by (fold n_def) linarith
      then have e126: "e = - 126"
        using binade_bounds(2) [OF False] by (simp add: e_def)
      have "\<bar>r\<bar> < 2 ^ 23 * u"
        using sub u by (simp add: absr)
      then have "\<bar>r\<bar> < 2 powi (- 126)"
        using powi_split(2) [of e] by (simp add: u_def e126)
      moreover have "r \<noteq> 0" using n0 u by (simp add: r)
      ultimately have "binade r = e" by (simp add: binade_subnormal e126)
      then show ?thesis
        using r fin by (intro rnd32_exact [where k = e and m = n]) (simp_all add: u_def)
    qed
  qed
qed

lemma ieee_rounding_rnd32: "ieee_rounding rnd32"
  unfolding ieee_rounding_def
  using rnd32_zero rnd32_minus rnd32_idem rnd32_nonneg by blast

text \<open>
  A number that is not below the smallest subnormal number in magnitude, and far from
  overflow, is rounded to a finite number that is not zero.
\<close>

lemma rnd32_nonzero_finite:
  assumes "2 powi (- 149) \<le> \<bar>x\<bar>" "\<bar>x\<bar> \<le> 2 ^ 64"
  obtains r where "rnd32 x = Fin r" "2 powi (- 149) \<le> \<bar>r\<bar>" "\<bar>r\<bar> \<le> 2 * \<bar>x\<bar>"
proof -
  have x0: "x \<noteq> 0" using assms(1) by (smt (verit) zero_less_power_int abs_zero)
  define e where "e = binade x"
  define u where "u = (2::real) powi (e - 23)"
  define q where "q = x / u"
  define n where "n = rne q"
  define r where "r = of_int n * u"
  have u: "0 < u" by (simp add: u_def)
  have e: "- 126 \<le> e" by (simp add: e_def binade_ge)
  have umin: "2 powi (- 149) \<le> u"
    unfolding u_def using e by (intro power_int_increasing) simp_all
  have ux: "u \<le> \<bar>x\<bar>"
  proof (cases "2 powi e \<le> \<bar>x\<bar>")
    case True
    have "u \<le> 2 powi e" unfolding u_def by (rule power_int_increasing) simp_all
    then show ?thesis using True by linarith
  next
    case False
    then have "e = - 126" using binade_bounds(2) [OF x0] by (simp add: e_def)
    then show ?thesis using assms(1) by (simp add: u_def)
  qed
  have qa: "1 \<le> \<bar>q\<bar>" using ux u by (simp add: q_def field_simps)
  have n1: "1 \<le> \<bar>n\<bar>"
  proof (cases "0 \<le> q")
    case True
    then have "of_int 1 \<le> q" using qa by simp
    then have "1 \<le> rne q" by (rule rne_ge)
    then show ?thesis by (simp add: n_def)
  next
    case False
    then have "q \<le> of_int (- 1)" using qa by simp
    then have "rne q \<le> - 1" by (rule rne_le)
    then show ?thesis by (simp add: n_def)
  qed
  have absr: "\<bar>r\<bar> = of_int \<bar>n\<bar> * u" using u by (simp add: r_def abs_mult)
  have "1 * u \<le> of_int \<bar>n\<bar> * u"
    using n1 u by (intro mult_right_mono) simp_all
  then have rlow: "2 powi (- 149) \<le> \<bar>r\<bar>" using umin absr by linarith
  have "r - x = (of_int n - q) * u" using u by (simp add: r_def q_def field_simps)
  then have "\<bar>r - x\<bar> = \<bar>of_int n - q\<bar> * u" using u by (simp add: abs_mult)
  also have "\<dots> \<le> 1 / 2 * u"
    using rne_close [of q] u by (intro mult_right_mono) (simp_all add: n_def)
  finally have "\<bar>r - x\<bar> \<le> \<bar>x\<bar>" using ux u by linarith
  then have rhigh: "\<bar>r\<bar> \<le> 2 * \<bar>x\<bar>" by linarith
  moreover have "(2::real) * 2 ^ 64 < 2 ^ 128" by simp
  ultimately have "\<bar>r\<bar> < 2 ^ 128" using assms(2) by linarith
  then have "rnd32 x = Fin r"
    using x0 by (simp add: rnd32_def Let_def r_def n_def q_def u_def e_def)
  then show ?thesis using rlow rhigh that by blast
qed

text \<open>
  The estimate \<open>0 - 10 * log10f nsr\<close> is not zero in binary32 when the logarithm is a
  positive number up to \<open>1\<close>.
\<close>

lemma rnd32_db_nonzero:
  assumes "2 powi (- 149) \<le> L" "L \<le> 1"
  shows "fsub_r rnd32 (Fin 0) (fmul_r rnd32 (Fin 10) (rnd32 L)) \<noteq> Fin 0"
proof -
  have Lpos: "0 < L" using assms(1) by (smt (verit) zero_less_power_int)
  have a1: "2 powi (- 149) \<le> \<bar>L\<bar>" and c1: "\<bar>L\<bar> \<le> 2 ^ 64"
    using assms Lpos by simp_all
  obtain r1 where r1: "rnd32 L = Fin r1" "2 powi (- 149) \<le> \<bar>r1\<bar>" "\<bar>r1\<bar> \<le> 2 * \<bar>L\<bar>"
    using a1 c1 by (rule rnd32_nonzero_finite)
  have b1: "\<bar>r1\<bar> \<le> 2" using r1(3) assms Lpos by linarith
  have a2: "2 powi (- 149) \<le> \<bar>10 * r1\<bar>" and c2: "\<bar>10 * r1\<bar> \<le> 2 ^ 64"
    using r1(2) b1 by (simp_all add: abs_mult)
  obtain r2 where r2: "rnd32 (10 * r1) = Fin r2" "2 powi (- 149) \<le> \<bar>r2\<bar>"
      "\<bar>r2\<bar> \<le> 2 * \<bar>10 * r1\<bar>"
    using a2 c2 by (rule rnd32_nonzero_finite)
  have a3: "2 powi (- 149) \<le> \<bar>- r2\<bar>" and c3: "\<bar>- r2\<bar> \<le> 2 ^ 64"
    using r2(2,3) b1 by (simp_all add: abs_mult)
  obtain r3 where r3: "rnd32 (- r2) = Fin r3" "2 powi (- 149) \<le> \<bar>r3\<bar>" "\<bar>r3\<bar> \<le> 2 * \<bar>- r2\<bar>"
    using a3 c3 by (rule rnd32_nonzero_finite)
  have "r3 \<noteq> 0" using r3(2) by (smt (verit) zero_less_power_int abs_zero)
  then show ?thesis
    using r1(1) r2(1) r3(1) by (simp add: fsub_r_def)
qed

lemma log10_next_after_one:
  "2 powi (- 149) \<le> log 10 (8388609 / 8388608)" "log 10 (8388609 / 8388608) \<le> 1"
proof -
  have "1 / 8388608 - (1 / 8388608)\<^sup>2 \<le> ln (1 + 1 / (8388608::real))"
    by (rule ln_one_plus_pos_lower_bound) simp_all
  then have l1: "1 / 16777216 \<le> ln (8388609 / (8388608::real))"
    by (simp add: power2_eq_square)
  have l10: "ln (10::real) \<le> 9" using ln_le_minus_one [of "10::real"] by simp
  have l10p: "0 < ln (10::real)" by simp
  have "1 / 16777216 / 9 \<le> ln (8388609 / (8388608::real)) / ln 10"
    using l1 l10 l10p by (intro frac_le) simp_all
  then have "1 / 16777216 / 9 \<le> log 10 (8388609 / 8388608)"
    by (simp only: log_def)
  moreover have "2 powi (- 149) \<le> 1 / 16777216 / (9::real)" by simp
  ultimately show "2 powi (- 149) \<le> log 10 (8388609 / 8388608)" by linarith
  have "log 10 (8388609 / 8388608) \<le> log 10 10"
    by (subst log_le_cancel_iff) simp_all
  then show "log 10 (8388609 / 8388608) \<le> 1" by simp
qed

lemma log10_two: "2 powi (- 149) \<le> log 10 2" "log 10 2 \<le> 1"
proof -
  have "log 10 (8388609 / 8388608) \<le> log 10 2"
    by (subst log_le_cancel_iff) simp_all
  then show "2 powi (- 149) \<le> log 10 2"
    using log10_next_after_one(1) by linarith
  have "log 10 2 \<le> log 10 10"
    by (subst log_le_cancel_iff) simp_all
  then show "log 10 2 \<le> 1" by simp
qed

text \<open>The binary32 values that the examples below pass through.\<close>

lemma rnd32_1: "rnd32 1 = Fin 1"
  using rnd32_eval [of 0 1 8388608] by (simp add: rne_def)

lemma rnd32_2: "rnd32 2 = Fin 2"
  using rnd32_eval [of 1 2 8388608] by (simp add: rne_def)

lemma rnd32_3: "rnd32 3 = Fin 3"
  using rnd32_eval [of 1 3 12582912] by (simp add: rne_def)

lemma rnd32_4: "rnd32 4 = Fin 4"
  using rnd32_eval [of 2 4 8388608] by (simp add: rne_def)

lemma rnd32_5: "rnd32 5 = Fin 5"
  using rnd32_eval [of 2 5 10485760] by (simp add: rne_def)

lemma rnd32_m4: "rnd32 (- 4) = Fin (- 4)"
  using rnd32_minus [of 4] by (simp add: rnd32_4)

lemma rnd32_5_2: "rnd32 (5 / 2) = Fin (5 / 2)"
  using rnd32_eval [of 1 "5 / 2" 10485760] by (simp add: rne_def)

lemma rnd32_m5_2: "rnd32 (- (5 / 2)) = Fin (- (5 / 2))"
  using rnd32_minus [of "5 / 2"] by (simp add: rnd32_5_2)

lemma rnd32_7_2: "rnd32 (7 / 2) = Fin (7 / 2)"
  using rnd32_eval [of 1 "7 / 2" 14680064] by (simp add: rne_def)

lemma rnd32_7_4: "rnd32 (7 / 4) = Fin (7 / 4)"
  using rnd32_eval [of 0 "7 / 4" 14680064] by (simp add: rne_def)

lemma rnd32_7_8: "rnd32 (7 / 8) = Fin (7 / 8)"
  using rnd32_eval [of "- 1" "7 / 8" 14680064] by (simp add: rne_def)

lemma rnd32_4096: "rnd32 4096 = Fin 4096"
  using rnd32_eval [of 12 4096 8388608] by (simp add: rne_def)

lemma rnd32_8192: "rnd32 8192 = Fin 8192"
  using rnd32_eval [of 13 8192 8388608] by (simp add: rne_def)

lemma rnd32_25_16: "rnd32 (25 / 16) = Fin (25 / 16)"
  using rnd32_eval [of 0 "25 / 16" 13107200] by (simp add: rne_def)

lemma rnd32_2p24: "rnd32 16777216 = Fin 16777216"
  using rnd32_eval [of 24 16777216 8388608] by (simp add: rne_def)

lemma rnd32_2p24_2: "rnd32 16777218 = Fin 16777218"
  using rnd32_eval [of 24 16777218 8388609] by (simp add: rne_def)

lemma rnd32_2p25_4: "rnd32 33554436 = Fin 33554436"
  using rnd32_eval [of 25 33554436 8388609] by (simp add: rne_def)

text \<open>\<open>2^24 + 25/16\<close> is rounded up, to \<open>2^24 + 2\<close>.\<close>

lemma rnd32_sum1: "rnd32 (16777216 + 25 / 16) = Fin 16777218"
  using rnd32_eval [of 24 "16777216 + 25 / 16" 8388609] by (simp add: rne_def)

text \<open>\<open>2^24 + 2 + 25/16\<close> is rounded up, to \<open>2^24 + 4\<close>.\<close>

lemma rnd32_sum2: "rnd32 (16777218 + 25 / 16) = Fin 16777220"
  using rnd32_eval [of 24 "16777218 + 25 / 16" 8388610] by (simp add: rne_def)

text \<open>\<open>2^25 + 2\<close> is a tie between \<open>2^25\<close> and \<open>2^25 + 4\<close>; it goes to the even \<open>2^25\<close>.\<close>

lemma rnd32_tie: "rnd32 33554434 = Fin 33554432"
  using rnd32_eval [of 25 33554434 8388608] by (simp add: rne_def)

text \<open>\<open>2^25 + 25/16\<close> is rounded down, to \<open>2^25\<close>.\<close>

lemma rnd32_sum3: "rnd32 (33554432 + 25 / 16) = Fin 33554432"
  using rnd32_eval [of 25 "33554432 + 25 / 16" 8388608] by (simp add: rne_def)

text \<open>The literal \<^verbatim>\<open>1e-6f\<close> is \<open>8796093 * 2^(-43)\<close>.\<close>

lemma rnd32_1e_6: "rnd32 (1 / 1000000) = Fin (8796093 / 2 ^ 43)"
  using rnd32_eval [of "- 20" "1 / 1000000" 8796093] by (simp add: rne_def)

lemma rnd32_1e_6_id: "rnd32 (8796093 / 2 ^ 43) = Fin (8796093 / 2 ^ 43)"
  using rnd32_eval [of "- 20" "8796093 / 2 ^ 43" 8796093] by (simp add: rne_def)

lemma rnd32_2e_6: "rnd32 (2 * (8796093 / 2 ^ 43)) = Fin (8796093 / 2 ^ 42)"
  using rnd32_eval [of "- 19" "2 * (8796093 / 2 ^ 43)" 8796093] by (simp add: rne_def)

lemma rnd32_next_after_one: "rnd32 (16777218 / 16777216) = Fin (8388609 / 8388608)"
  using rnd32_eval [of 0 "16777218 / 16777216" 8388609] by (simp add: rne_def)

lemmas rnd32_values =
  rnd32_zero rnd32_1 rnd32_2 rnd32_3 rnd32_4 rnd32_5 rnd32_m4 rnd32_5_2 rnd32_m5_2
  rnd32_7_2 rnd32_7_4 rnd32_7_8 rnd32_4096 rnd32_8192 rnd32_25_16 rnd32_2p24 rnd32_2p24_2
  rnd32_2p25_4 rnd32_sum1 [simplified] rnd32_sum2 [simplified] rnd32_tie
  rnd32_sum3 [simplified] rnd32_1e_6 [simplified] rnd32_1e_6_id [simplified]
  rnd32_2e_6 [simplified] rnd32_next_after_one [simplified]

section \<open>Properties of the C/N0 estimator\<close>

lemma cn0_update_prev:
  "I_prev_abs (snd (cn0_est_snv_update s I Q)) = fabsf I"
  "Q_prev_abs (snd (cn0_est_snv_update s I Q)) = fabsf Q"
  by (simp_all add: cn0_est_snv_update_def Let_def)

lemma cn0_feed_past_bootstrap:
  "iqs \<noteq> [] \<Longrightarrow> \<not> flt (I_prev_abs (snd (cn0_feed s iqs))) (Fin 0)"
proof (induction iqs arbitrary: s)
  case Nil
  then show ?case by simp
next
  case (Cons iq iqs)
  show ?case
  proof (cases "iqs = []")
    case True
    then show ?thesis
      by (simp add: cn0_update_prev fabsf_not_neg)
  next
    case False
    then show ?thesis
      using Cons.IH [of "snd (cn0_est_snv_update s (fst iq) (snd iq))"] by simp
  qed
qed

text \<open>
  C4. Whatever the init parameters and whatever I and Q, the first call of
  \<^verbatim>\<open>cn0_est_snv_update\<close> after \<^verbatim>\<open>cn0_est_snv_init\<close> returns the initial value
  \<open>cn0_0\<close>; the new state is the initial state with only the two previous-magnitude
  fields written, so \<open>cn0\<close> and \<open>log_bw\<close> are unchanged.
\<close>

theorem cn0_first_update_bootstrap:
  "cn0_est_snv_update (cn0_est_snv_init bw cn0_0 f_s f_i) I Q =
     (cn0_0, (cn0_est_snv_init bw cn0_0 f_s f_i)
               \<lparr>I_prev_abs := fabsf I, Q_prev_abs := fabsf Q\<rparr>)
   \<and> cn0 (snd (cn0_est_snv_update (cn0_est_snv_init bw cn0_0 f_s f_i) I Q)) = cn0_0
   \<and> log_bw (snd (cn0_est_snv_update (cn0_est_snv_init bw cn0_0 f_s f_i) I Q)) =
       log_bw (cn0_est_snv_init bw cn0_0 f_s f_i)"
  by (simp add: cn0_est_snv_update_def cn0_est_snv_init_def)

text \<open>
  C3. The degenerate signal. After init with \<open>bw = 1\<close>, \<open>cn0_0 = 40\<close>, \<open>f_s = 1000\<close>,
  \<open>f_i = 1\<close> (so \<open>log_bw = -30\<close>), three updates with \<open>I = Q = 0\<close> return \<open>40\<close> (the
  bootstrap) and then NaN twice: with both previous magnitudes zero, \<open>P_s = 0\<close> and
  \<open>P_n = 0\<close>, the guard \<open>P_s < P_n * 1e-6\<close> is \<open>0 < 0\<close>, the clamp is skipped and
  \<open>nsr = 0 / 0\<close>. The value \<open>log_bw - 60 = -90\<close> is never returned. The same holds
  from any state whose previous magnitudes are both zero, whatever its \<open>log_bw\<close>.
\<close>

theorem cn0_zero_input_nan:
  "log_bw (cn0_est_snv_init (Fin 1) (Fin 40) (Fin 1000) (Fin 1)) = Fin (- 30)
   \<and> fst (cn0_feed (cn0_est_snv_init (Fin 1) (Fin 40) (Fin 1000) (Fin 1))
            [(Fin 0, Fin 0), (Fin 0, Fin 0), (Fin 0, Fin 0)]) = [Fin 40, NaN, NaN]
   \<and> fst (cn0_est_snv_update (s\<lparr>I_prev_abs := Fin 0, Q_prev_abs := Fin 0\<rparr>) (Fin 0) (Fin 0))
       = NaN"
  by (simp add: cn0_est_snv_update_def cn0_est_snv_init_def Let_def
        CN0_SNV_NSR_MIN_def CN0_SNV_NSR_MIN_MULTIPLIER_def fsub_def log10_thousandth)

text \<open>
  C6. Equal in-phase and quadrature inputs. After init with \<open>bw = f_s = f_i = 1\<close>
  (so \<open>log_bw = 0\<close>) and the bootstrap update with \<open>I = Q = 1\<close>, the next update with
  \<open>I = Q = 1\<close> has signal power \<open>1\<close>, total power \<open>2\<close> and noise power \<open>1\<close>. The code
  divides the total power by the signal power, \<open>nsr = 2\<close>, and returns
  \<open>log_bw - 10 * log10 2\<close>, which is not \<open>log_bw\<close>; so it does in exact arithmetic and
  in binary32.
\<close>

theorem cn0_equal_IQ_not_log_bw:
  "fst (cn0_est_snv_update
          (snd (cn0_est_snv_update (cn0_est_snv_init (Fin 1) (Fin 40) (Fin 1) (Fin 1))
                  (Fin 1) (Fin 1)))
          (Fin 1) (Fin 1))
     \<noteq> log_bw (cn0_est_snv_init (Fin 1) (Fin 40) (Fin 1) (Fin 1))
   \<and> snd (cn0_est_snv_update (cn0_est_snv_init (Fin 1) (Fin 40) (Fin 1) (Fin 1))
           (Fin 1) (Fin 1))
     = \<lparr>log_bw = Fin 0, I_prev_abs = Fin 1, Q_prev_abs = Fin 1, cn0 = Fin 40\<rparr>
   \<and> fst (cn0_est_snv_update
            \<lparr>log_bw = Fin 0, I_prev_abs = Fin 1, Q_prev_abs = Fin 1, cn0 = Fin 40\<rparr>
            (Fin 1) (Fin 1))
     = fsub (Fin 0) (fmul (Fin 10) (log10f (Fin 2)))
   \<and> fst (cn0_est_snv_update_r rnd32
            \<lparr>log_bw = Fin 0, I_prev_abs = Fin 1, Q_prev_abs = Fin 1, cn0 = Fin 40\<rparr>
            (Fin 1) (Fin 1))
     = fsub_r rnd32 (Fin 0) (fmul_r rnd32 (Fin 10) (log10f_r rnd32 (Fin 2)))
   \<and> fst (cn0_est_snv_update_r rnd32
            \<lparr>log_bw = Fin 0, I_prev_abs = Fin 1, Q_prev_abs = Fin 1, cn0 = Fin 40\<rparr>
            (Fin 1) (Fin 1))
     \<noteq> Fin 0"
proof -
  have exact: "fst (cn0_est_snv_update
          (snd (cn0_est_snv_update (cn0_est_snv_init (Fin 1) (Fin 40) (Fin 1) (Fin 1))
                  (Fin 1) (Fin 1)))
          (Fin 1) (Fin 1))
     \<noteq> log_bw (cn0_est_snv_init (Fin 1) (Fin 40) (Fin 1) (Fin 1))"
    by (simp add: log10_2_neq_0 cn0_est_snv_update_def cn0_est_snv_init_def Let_def
        CN0_SNV_NSR_MIN_def CN0_SNV_NSR_MIN_MULTIPLIER_def fsub_def)
  have boot: "snd (cn0_est_snv_update (cn0_est_snv_init (Fin 1) (Fin 40) (Fin 1) (Fin 1))
           (Fin 1) (Fin 1))
     = \<lparr>log_bw = Fin 0, I_prev_abs = Fin 1, Q_prev_abs = Fin 1, cn0 = Fin 40\<rparr>"
    by (simp add: cn0_est_snv_update_def cn0_est_snv_init_def)
  have ev: "fst (cn0_est_snv_update
            \<lparr>log_bw = Fin 0, I_prev_abs = Fin 1, Q_prev_abs = Fin 1, cn0 = Fin 40\<rparr>
            (Fin 1) (Fin 1))
     = fsub (Fin 0) (fmul (Fin 10) (log10f (Fin 2)))"
    by (simp add: cn0_est_snv_update_def Let_def CN0_SNV_NSR_MIN_def
        CN0_SNV_NSR_MIN_MULTIPLIER_def fsub_def)
  have ev32: "fst (cn0_est_snv_update_r rnd32
            \<lparr>log_bw = Fin 0, I_prev_abs = Fin 1, Q_prev_abs = Fin 1, cn0 = Fin 40\<rparr>
            (Fin 1) (Fin 1))
     = fsub_r rnd32 (Fin 0) (fmul_r rnd32 (Fin 10) (log10f_r rnd32 (Fin 2)))"
    by (simp add: cn0_est_snv_update_r_def Let_def fsub_r_def rnd32_values
        CN0_SNV_NSR_MIN_def CN0_SNV_NSR_MIN_MULTIPLIER_r_def)
  have "fsub_r rnd32 (Fin 0) (fmul_r rnd32 (Fin 10) (log10f_r rnd32 (Fin 2))) \<noteq> Fin 0"
    using rnd32_db_nonzero [OF log10_two] by simp
  then have ne32: "fst (cn0_est_snv_update_r rnd32
            \<lparr>log_bw = Fin 0, I_prev_abs = Fin 1, Q_prev_abs = Fin 1, cn0 = Fin 40\<rparr>
            (Fin 1) (Fin 1)) \<noteq> Fin 0"
    by (simp only: ev32 simp_thms)
  show ?thesis
    using exact boot ev ev32 ne32 by blast
qed

text \<open>
  C7. With \<open>bw = 1\<close>, \<open>f_s = 1000\<close>, \<open>f_i = 1\<close> the computed \<open>log_bw\<close> is \<open>-30\<close>, and
  with \<open>I = 1\<close>, \<open>Q = 0\<close> on every update the first call returns the initial value and
  the second call returns \<open>-30\<close>.
\<close>

theorem cn0_literal_example:
  "log_bw (cn0_est_snv_init (Fin 1) cn0_0 (Fin 1000) (Fin 1)) = Fin (- 30)
   \<and> fst (cn0_feed (cn0_est_snv_init (Fin 1) cn0_0 (Fin 1000) (Fin 1))
            [(Fin 1, Fin 0), (Fin 1, Fin 0)]) = [cn0_0, Fin (- 30)]"
  by (simp add: cn0_est_snv_update_def cn0_est_snv_init_def Let_def
        CN0_SNV_NSR_MIN_def CN0_SNV_NSR_MIN_MULTIPLIER_def fsub_def log10_thousandth)

text \<open>
  C10. Every call of \<^verbatim>\<open>cn0_est_snv_update\<close>, the bootstrap call included, stores
  \<open>|I|\<close> and \<open>|Q|\<close> in the previous-magnitude fields. For inputs that are not NaN both
  fields are then non-negative. Whatever the inputs, the sentinel test
  \<open>I_prev_abs < 0\<close> is false in the state after an update, and so it is after any
  non-empty run of updates: only the first update of a state's lifetime can take the
  bootstrap branch.
\<close>

theorem cn0_prev_overwritten:
  "I_prev_abs (snd (cn0_est_snv_update s I Q)) = fabsf I
   \<and> Q_prev_abs (snd (cn0_est_snv_update s I Q)) = fabsf Q
   \<and> (I \<noteq> NaN \<longrightarrow> fle (Fin 0) (I_prev_abs (snd (cn0_est_snv_update s I Q))))
   \<and> (Q \<noteq> NaN \<longrightarrow> fle (Fin 0) (Q_prev_abs (snd (cn0_est_snv_update s I Q))))
   \<and> \<not> flt (I_prev_abs (snd (cn0_est_snv_update s I Q))) (Fin 0)
   \<and> (iqs \<noteq> [] \<longrightarrow> \<not> flt (I_prev_abs (snd (cn0_feed s iqs))) (Fin 0))"
  by (simp add: cn0_update_prev fabsf_not_neg fabsf_nonneg cn0_feed_past_bootstrap)

theorem cn0_prev_overwritten_witness:
  "(Fin (- 3) \<noteq> NaN \<and> Fin 4 \<noteq> NaN \<and> [(Fin (- 3), Fin 4)] \<noteq> [])
   \<and> I_prev_abs (snd (cn0_est_snv_update (cn0_est_snv_init (Fin 1) (Fin 40) (Fin 1000) (Fin 1))
                        (Fin (- 3)) (Fin 4))) = Fin 3
   \<and> fle (Fin 0) (I_prev_abs (snd (cn0_est_snv_update
                        (cn0_est_snv_init (Fin 1) (Fin 40) (Fin 1000) (Fin 1)) (Fin (- 3)) (Fin 4))))
   \<and> fle (Fin 0) (Q_prev_abs (snd (cn0_est_snv_update
                        (cn0_est_snv_init (Fin 1) (Fin 40) (Fin 1000) (Fin 1)) (Fin (- 3)) (Fin 4))))
   \<and> \<not> flt (I_prev_abs (snd (cn0_feed (cn0_est_snv_init (Fin 1) (Fin 40) (Fin 1000) (Fin 1))
                        [(Fin (- 3), Fin 4)]))) (Fin 0)"
  using cn0_prev_overwritten [of "cn0_est_snv_init (Fin 1) (Fin 40) (Fin 1000) (Fin 1)"
      "Fin (- 3)" "Fin 4" "[(Fin (- 3), Fin 4)]"]
  by simp

subsection \<open>The update and the specification's formulas\<close>

lemma cn0_est_snv_update_r_exact: "cn0_est_snv_update_r Fin s I Q = cn0_est_snv_update s I Q"
  by (simp add: cn0_est_snv_update_r_def cn0_est_snv_update_def Let_def exact_ops
      CN0_SNV_NSR_MIN_MULTIPLIER_r_def CN0_SNV_NSR_MIN_MULTIPLIER_def)

text \<open>
  In exact arithmetic the order in which the four squares are added does not matter, and
  the update computes the reference definition.
\<close>

lemma cn0_update_exact_reference:
  assumes "fle (Fin 0) (I_prev_abs s)"
  shows "cn0_est_snv_update_r Fin s I Q = cn0_update_reference_r Fin s I Q"
proof -
  have past: "\<not> flt (I_prev_abs s) (Fin 0)"
    using assms by (rule fle_zero_not_flt)
  have order: "fadd (fadd (fadd q p) q') p' = fadd (fadd (fadd p q) p') q'" for p q p' q'
    by (metis fadd_commute fadd_assoc)
  show ?thesis
    using past
    by (simp add: cn0_est_snv_update_r_def cn0_update_reference_r_def Let_def fsq_r_def
        exact_ops order CN0_SNV_NSR_MIN_def CN0_SNV_NSR_MIN_MULTIPLIER_r_def)
qed

text \<open>
  In binary32 it does matter. The state has the previous magnitudes \<open>4096\<close> and \<open>1.25\<close>
  and \<open>log_bw = 0\<close>, the inputs are \<open>I = 4096\<close> and \<open>Q = 1.25\<close>. The squares are
  \<open>2^24\<close> and \<open>25/16\<close>. The code adds \<open>25/16\<close> twice while the sum is near \<open>2^24\<close>,
  where floats are \<open>2\<close> apart, and each time the sum goes up by \<open>2\<close>: the total power
  is \<open>2^24 + 2\<close> and the ratio to the signal power \<open>2^24\<close> is the float next after \<open>1\<close>.
  The reference adds the second \<open>25/16\<close> to a sum near \<open>2^25\<close>, where floats are \<open>4\<close>
  apart, and it is lost: the total power is \<open>2^24\<close>, the ratio is \<open>1\<close> and the
  estimate is \<open>log_bw\<close>.
\<close>

lemma cn0_reference_value32:
  "fst (cn0_update_reference_r rnd32
          \<lparr>log_bw = Fin 0, I_prev_abs = Fin 4096, Q_prev_abs = Fin (5 / 4), cn0 = Fin 0\<rparr>
          (Fin 4096) (Fin (5 / 4))) = Fin 0"
  by (simp add: cn0_update_reference_r_def Let_def fsq_r_def fsub_r_def rnd32_values)

lemma cn0_update_value32:
  "fst (cn0_est_snv_update_r rnd32
          \<lparr>log_bw = Fin 0, I_prev_abs = Fin 4096, Q_prev_abs = Fin (5 / 4), cn0 = Fin 0\<rparr>
          (Fin 4096) (Fin (5 / 4))) =
   fsub_r rnd32 (Fin 0) (fmul_r rnd32 (Fin 10) (rnd32 (log 10 (8388609 / 8388608))))"
  by (simp add: cn0_est_snv_update_r_def Let_def fsub_r_def rnd32_values
      CN0_SNV_NSR_MIN_def CN0_SNV_NSR_MIN_MULTIPLIER_r_def)

text \<open>
  C1, as stated, fails in binary32: at a state past the bootstrap the update does not
  return what the reference definition returns.
\<close>

theorem cn0_update_order_counterexample:
  "fle (Fin 0) (I_prev_abs
      \<lparr>log_bw = Fin 0, I_prev_abs = Fin 4096, Q_prev_abs = Fin (5 / 4), cn0 = Fin 0\<rparr>)
   \<and> fst (cn0_update_reference_r rnd32
          \<lparr>log_bw = Fin 0, I_prev_abs = Fin 4096, Q_prev_abs = Fin (5 / 4), cn0 = Fin 0\<rparr>
          (Fin 4096) (Fin (5 / 4))) = Fin 0
   \<and> fst (cn0_est_snv_update_r rnd32
          \<lparr>log_bw = Fin 0, I_prev_abs = Fin 4096, Q_prev_abs = Fin (5 / 4), cn0 = Fin 0\<rparr>
          (Fin 4096) (Fin (5 / 4))) \<noteq> Fin 0
   \<and> cn0_est_snv_update_r rnd32
          \<lparr>log_bw = Fin 0, I_prev_abs = Fin 4096, Q_prev_abs = Fin (5 / 4), cn0 = Fin 0\<rparr>
          (Fin 4096) (Fin (5 / 4))
     \<noteq> cn0_update_reference_r rnd32
          \<lparr>log_bw = Fin 0, I_prev_abs = Fin 4096, Q_prev_abs = Fin (5 / 4), cn0 = Fin 0\<rparr>
          (Fin 4096) (Fin (5 / 4))"
proof -
  have code: "fst (cn0_est_snv_update_r rnd32
          \<lparr>log_bw = Fin 0, I_prev_abs = Fin 4096, Q_prev_abs = Fin (5 / 4), cn0 = Fin 0\<rparr>
          (Fin 4096) (Fin (5 / 4))) \<noteq> Fin 0"
    using rnd32_db_nonzero [OF log10_next_after_one]
    by (simp only: cn0_update_value32 simp_thms)
  then show ?thesis
    using cn0_reference_value32 by auto
qed

text \<open>
  C1, amended. For every state past the bootstrap, all inputs I and Q and every rounding
  of the arithmetic, \<^verbatim>\<open>cn0_est_snv_update\<close> returns and stores exactly what the
  reference definition does when the total power adds the square of \<open>|Q|\<close> before the
  square of \<open>|I|\<close>: \<open>P_tot = 0.5 * (((prevAbsI^2 + prevAbsQ^2) + |Q|^2) + |I|^2)\<close>. The
  signal power, the clamped noise-to-signal ratio, \<open>cn0 = log_bw - 10 * log10 nsr\<close> and
  the new previous pair are as the specification has them.
\<close>

theorem cn0_update_refines_amended:
  assumes "fle (Fin 0) (I_prev_abs s)"
  shows "cn0_est_snv_update_r rnd s I Q = cn0_update_amended_r rnd s I Q"
proof -
  have past: "\<not> flt (I_prev_abs s) (Fin 0)"
    using assms by (rule fle_zero_not_flt)
  have first: "fadd_r rnd (fmul_r rnd (Q_prev_abs s) (Q_prev_abs s))
                          (fmul_r rnd (I_prev_abs s) (I_prev_abs s)) =
               fadd_r rnd (fmul_r rnd (I_prev_abs s) (I_prev_abs s))
                          (fmul_r rnd (Q_prev_abs s) (Q_prev_abs s))"
    by (rule fadd_r_commute)
  show ?thesis
    using past
    by (simp add: cn0_est_snv_update_r_def cn0_update_amended_r_def Let_def fsq_r_def first
        CN0_SNV_NSR_MIN_def CN0_SNV_NSR_MIN_MULTIPLIER_r_def)
qed

theorem cn0_update_refines_amended_witness:
  "fle (Fin 0) (I_prev_abs
      \<lparr>log_bw = Fin 0, I_prev_abs = Fin 4096, Q_prev_abs = Fin (5 / 4), cn0 = Fin 0\<rparr>)
   \<and> cn0_est_snv_update_r rnd32
        \<lparr>log_bw = Fin 0, I_prev_abs = Fin 4096, Q_prev_abs = Fin (5 / 4), cn0 = Fin 0\<rparr>
        (Fin 4096) (Fin (5 / 4))
     = cn0_update_amended_r rnd32
        \<lparr>log_bw = Fin 0, I_prev_abs = Fin 4096, Q_prev_abs = Fin (5 / 4), cn0 = Fin 0\<rparr>
        (Fin 4096) (Fin (5 / 4))"
proof -
  have h: "fle (Fin 0) (I_prev_abs
      \<lparr>log_bw = Fin 0, I_prev_abs = Fin 4096, Q_prev_abs = Fin (5 / 4), cn0 = Fin 0\<rparr>)"
    by simp
  show ?thesis
    using h cn0_update_refines_amended [OF h, of rnd32 "Fin 4096" "Fin (5 / 4)"] by blast
qed

section \<open>Properties of the low-pass filter\<close>

subsection \<open>The coefficient derivation\<close>

lemma lp1_Ap_value: "lp1_Ap = Fin (10 powr (- 3 / 20))"
  by (simp add: lp1_Ap_def)

lemma lp1_Ap_sq_less_1: "(10::real) powr (- 3 / 20) * 10 powr (- 3 / 20) < 1"
proof -
  have "(10::real) powr (- 3 / 20) * 10 powr (- 3 / 20) = 10 powr (- 3 / 10)"
    by (simp add: powr_add [symmetric])
  also have "\<dots> < 10 powr 0"
    by (rule powr_less_mono) simp_all
  finally show ?thesis by simp
qed

lemma lp1_sqrt_arg_value:
  "lp1_sqrt_arg = Fin (1 / (10 powr (- 3 / 20) * 10 powr (- 3 / 20) - 1))"
  using lp1_Ap_sq_less_1 by (simp add: lp1_sqrt_arg_def lp1_Ap_value fsub_def)

lemma lp1_sqrt_arg_negative: "1 / ((10::real) powr (- 3 / 20) * 10 powr (- 3 / 20) - 1) < 0"
  using lp1_Ap_sq_less_1 by (simp add: divide_less_0_iff)

lemma sqrtf_lp1_sqrt_arg: "sqrtf lp1_sqrt_arg = NaN"
  using lp1_sqrt_arg_negative by (simp add: lp1_sqrt_arg_value)

lemma lp1_tmp_NaN: "lp1_tmp cutoff_freq loop_freq = NaN"
  by (simp add: lp1_tmp_def lp1_Oc_def sqrtf_lp1_sqrt_arg)

lemma lp1_filter_init_NaN:
  "lp1_filter_init initial cutoff_freq loop_freq = \<lparr> a = NaN, b = NaN, xn = NaN, yn = initial \<rparr>"
  by (simp add: lp1_filter_init_def lp1_tmp_NaN)

text \<open>
  C5. The coefficient derivation leaves the domain of \<^verbatim>\<open>sqrtf\<close>, whatever the cutoff
  and loop frequencies: \<open>Ap * Ap = 10^(-3/10)\<close> is below \<open>1\<close>, so the argument
  \<open>1 / (Ap * Ap - 1)\<close> is a negative number and its square root is NaN. With it
  \<^verbatim>\<open>Oc\<close>, \<^verbatim>\<open>tmp\<close> and the denominator \<open>2 - tmp\<close> are NaN, and init stores NaN in
  \<open>a\<close>, \<open>b\<close> and \<open>xn\<close>.
\<close>

theorem lp1_init_sqrt_domain_error:
  "lp1_sqrt_arg = Fin (1 / (10 powr (- 3 / 20) * 10 powr (- 3 / 20) - 1))
   \<and> 1 / ((10::real) powr (- 3 / 20) * 10 powr (- 3 / 20) - 1) < 0
   \<and> sqrtf lp1_sqrt_arg = NaN
   \<and> lp1_tmp cutoff_freq loop_freq = NaN
   \<and> fsub (Fin 2) (lp1_tmp cutoff_freq loop_freq) = NaN
   \<and> lp1_filter_init initial cutoff_freq loop_freq =
       \<lparr> a = NaN, b = NaN, xn = NaN, yn = initial \<rparr>"
proof -
  have den: "fsub (Fin 2) (lp1_tmp cutoff_freq loop_freq) = NaN"
    by (simp add: lp1_tmp_NaN)
  show ?thesis
    using lp1_sqrt_arg_value lp1_sqrt_arg_negative sqrtf_lp1_sqrt_arg
      lp1_tmp_NaN [of cutoff_freq loop_freq] den
      lp1_filter_init_NaN [of initial cutoff_freq loop_freq]
    by blast
qed

text \<open>
  C2. An update right after init returns NaN, whatever the initial value, the
  frequencies and the value fed; in particular init with initial value \<open>1\<close>, cutoff
  \<open>1\<close> Hz and loop frequency \<open>1000\<close> Hz followed by an update with \<open>1\<close> does not
  return \<open>1\<close>.
\<close>

theorem lp1_init_then_update_nan:
  "fst (lp1_filter_update (lp1_filter_init initial cutoff_freq loop_freq) val) = NaN
   \<and> fst (lp1_filter_update (lp1_filter_init (Fin 1) (Fin 1) (Fin 1000)) (Fin 1)) \<noteq> Fin 1"
  by (simp add: lp1_filter_init_NaN lp1_filter_update_def)

text \<open>
  The steady-state law the bootstrap aims at: for coefficients derived from a finite
  \<open>tmp\<close> other than \<open>2\<close>, \<open>2 * b - a = 1\<close>, and the state \<open>yn = v\<close>,
  \<open>xn = v * b\<close> is a fixed point for the constant input \<open>v\<close>.
\<close>

lemma lp1_fixed_point_law:
  assumes "t \<noteq> 2"
  shows "fst (lp1_filter_update
                \<lparr> a = Fin ((- 2 - t) / (2 - t)), b = Fin (- t / (2 - t)),
                  xn = Fin (v * (- t / (2 - t))), yn = Fin v \<rparr> (Fin v)) = Fin v"
proof -
  define d where "d = 2 - t"
  have d: "d \<noteq> 0" using assms by (simp add: d_def)
  have "- t / d * v + v * (- t / d) - (- 2 - t) / d * v = v * (2 - t) / d"
    using d by (simp add: field_simps)
  also have "\<dots> = v" using d by (simp add: d_def)
  finally have "- t / (2 - t) * v + v * (- t / (2 - t)) - (- 2 - t) / (2 - t) * v = v"
    by (simp add: d_def)
  then show ?thesis
    by (simp add: lp1_filter_update_def fsub_def)
qed

subsection \<open>The update\<close>

lemma lp1_update_coeffs:
  "a (snd (lp1_filter_update f v)) = a f" "b (snd (lp1_filter_update f v)) = b f"
  by (simp_all add: lp1_filter_update_def Let_def)

lemma lp1_feed_coeffs:
  "a (snd (lp1_feed f vs)) = a f \<and> b (snd (lp1_feed f vs)) = b f"
  by (induction vs arbitrary: f) (simp_all add: lp1_update_coeffs)

text \<open>
  C9. For every filter state and every input value, \<^verbatim>\<open>lp1_filter_update\<close> leaves
  the coefficients \<open>a\<close> and \<open>b\<close> as they were and writes only \<open>xn\<close> and \<open>yn\<close>; so
  does every run of updates.
\<close>

theorem lp1_update_frame:
  "a (snd (lp1_filter_update f v)) = a f
   \<and> b (snd (lp1_filter_update f v)) = b f
   \<and> snd (lp1_filter_update f v) =
       f\<lparr>xn := xn (snd (lp1_filter_update f v)), yn := yn (snd (lp1_filter_update f v))\<rparr>
   \<and> a (snd (lp1_feed f vs)) = a f
   \<and> b (snd (lp1_feed f vs)) = b f"
  by (simp add: lp1_update_coeffs lp1_feed_coeffs)

subsection \<open>Impulse, then zeros\<close>

lemma lp1_filter_update_r_exact: "lp1_filter_update_r Fin f v = lp1_filter_update f v"
  by (simp add: lp1_filter_update_r_def lp1_filter_update_def Let_def exact_ops)

text \<open>
  One update with input \<open>0\<close> in a flushed state returns \<open>- a\<close> times the previous
  output, one float multiplication, and stores it; the state stays flushed.
\<close>

lemma lp1_r_zero_step:
  assumes "ieee_rounding rnd" "xn f = Fin 0" "fmul_r rnd (b f) (Fin 0) = Fin 0"
  shows "lp1_filter_update_r rnd f (Fin 0) =
           (fmul_r rnd (fneg (a f)) (yn f), f\<lparr>yn := fmul_r rnd (fneg (a f)) (yn f)\<rparr>)"
proof -
  have "fsub_r rnd (Fin 0) (fmul_r rnd (a f) (yn f)) = fneg (fmul_r rnd (a f) (yn f))"
    using assms(1) by (rule fsub_r_zero_left) (rule fmul_r_rounded [OF assms(1)])
  then show ?thesis
    using assms by (cases f) (simp add: lp1_filter_update_r_def ieee_zero fmul_r_fneg)
qed

lemma lp1_r_nan_step:
  assumes "xn f = NaN" "yn f = NaN" "fmul_r rnd (b f) (Fin 0) = NaN"
  shows "lp1_filter_update_r rnd f (Fin 0) =
           (fmul_r rnd (fneg (a f)) (yn f), f\<lparr>yn := fmul_r rnd (fneg (a f)) (yn f)\<rparr>)"
  using assms by (cases f) (simp add: lp1_filter_update_r_def)

lemma lp1_r_flushed_step:
  assumes "ieee_rounding rnd" "lp1_flushed rnd f"
  shows "lp1_filter_update_r rnd f (Fin 0) =
           (fmul_r rnd (fneg (a f)) (yn f), f\<lparr>yn := fmul_r rnd (fneg (a f)) (yn f)\<rparr>)"
  using assms lp1_r_zero_step [of rnd f] lp1_r_nan_step [of f rnd]
  by (auto simp add: lp1_flushed_def)

lemma lp1_r_flushed_run:
  assumes "ieee_rounding rnd" "lp1_flushed rnd f"
  shows "fst (lp1_feed_r rnd f (replicate n (Fin 0))) = fgeom_r rnd (fneg (a f)) (yn f) n"
  using assms(2)
proof (induction n arbitrary: f)
  case 0
  then show ?case by simp
next
  case (Suc n)
  let ?y = "fmul_r rnd (fneg (a f)) (yn f)"
  let ?f' = "f\<lparr>yn := ?y\<rparr>"
  have step: "lp1_filter_update_r rnd f (Fin 0) = (?y, ?f')"
    using assms(1) Suc.prems by (rule lp1_r_flushed_step)
  have "lp1_flushed rnd ?f'"
    using Suc.prems by (auto simp add: lp1_flushed_def)
  then have "fst (lp1_feed_r rnd ?f' (replicate n (Fin 0))) = fgeom_r rnd (fneg (a ?f')) (yn ?f') n"
    by (rule Suc.IH)
  then show ?case by (simp add: step)
qed

text \<open>Whatever the state, one update with input \<open>0\<close> flushes the delayed input.\<close>

lemma lp1_r_flushed_after_zero:
  assumes "ieee_rounding rnd"
  shows "lp1_flushed rnd (snd (lp1_filter_update_r rnd f (Fin 0)))"
  using fmul_r_zero_cases [OF assms, of "b f"]
  by (auto simp add: lp1_flushed_def lp1_filter_update_r_def Let_def)

lemma fgeom_r_abs:
  assumes "ieee_rounding rnd"
  shows "map fabsf (fgeom_r rnd ratio y n) = fgeom_r rnd (fabsf ratio) (fabsf y) n"
  by (induction n arbitrary: y) (simp_all add: fabsf_fmul_r [OF assms])

text \<open>
  C8. Impulse, then zeros. For every filter state \<open>f\<close>, every first input \<open>v\<close> and
  every rounding with the four properties above (binary32 rounding is one), the outputs
  of the update with \<open>v\<close> followed by \<open>n + 1\<close> updates with \<open>0\<close> are: what the update
  with \<open>v\<close> returns, what the first update with \<open>0\<close> returns (that update flushes the
  delayed input \<open>xn\<close>), and from then on each output is \<open>- a\<close> times the output before
  it, one float multiplication per step. The magnitudes of such a sequence form the
  sequence of ratio \<open>|a|\<close>. No state is excluded: where \<open>a\<close> or the outputs are NaN or
  infinite, as in every state that \<^verbatim>\<open>lp1_filter_init\<close> produces, the products are the
  float products of those values.
\<close>

theorem lp1_impulse_then_zero:
  assumes "ieee_rounding rnd"
  shows "fst (lp1_feed_r rnd f (v # Fin 0 # replicate n (Fin 0))) =
           fst (lp1_filter_update_r rnd f v)
           # fst (lp1_filter_update_r rnd (snd (lp1_filter_update_r rnd f v)) (Fin 0))
           # fgeom_r rnd (fneg (a f))
               (fst (lp1_filter_update_r rnd (snd (lp1_filter_update_r rnd f v)) (Fin 0))) n
         \<and> map fabsf (fgeom_r rnd (fneg (a f)) y n) = fgeom_r rnd (fabsf (a f)) (fabsf y) n"
proof -
  let ?f1 = "snd (lp1_filter_update_r rnd f v)"
  let ?f2 = "snd (lp1_filter_update_r rnd ?f1 (Fin 0))"
  have fl: "lp1_flushed rnd ?f2"
    using assms by (rule lp1_r_flushed_after_zero)
  have co: "a ?f2 = a f" "yn ?f2 = fst (lp1_filter_update_r rnd ?f1 (Fin 0))"
    by (simp_all add: lp1_filter_update_r_def Let_def)
  have "fst (lp1_feed_r rnd ?f2 (replicate n (Fin 0))) = fgeom_r rnd (fneg (a ?f2)) (yn ?f2) n"
    using assms fl by (rule lp1_r_flushed_run)
  then show ?thesis
    using fgeom_r_abs [OF assms, of "fneg (a f)" y n] by (simp add: co)
qed

text \<open>
  In binary32: from \<open>a = -1/2\<close>, \<open>b = 1/4\<close>, \<open>xn = 0\<close>, \<open>yn = 8\<close> the impulse \<open>4\<close> and
  three zeros give \<open>5\<close>, \<open>7/2\<close>, \<open>7/4\<close>, \<open>7/8\<close>; from the state that
  \<^verbatim>\<open>lp1_filter_init\<close> produces they give NaN four times.
\<close>

theorem lp1_impulse_then_zero_witness:
  "ieee_rounding rnd32
   \<and> fst (lp1_feed_r rnd32 \<lparr> a = Fin (- 1 / 2), b = Fin (1 / 4), xn = Fin 0, yn = Fin 8 \<rparr>
            (Fin 4 # Fin 0 # replicate 2 (Fin 0))) = [Fin 5, Fin (7 / 2), Fin (7 / 4), Fin (7 / 8)]
   \<and> map fabsf (fgeom_r rnd32 (fneg (Fin (- 1 / 2))) (Fin (- 7 / 2)) 2) =
       [Fin (7 / 4), Fin (7 / 8)]
   \<and> fst (lp1_feed_r rnd32 (lp1_filter_init (Fin 1) (Fin 1) (Fin 1000))
            (Fin 1 # Fin 0 # replicate 2 (Fin 0))) = [NaN, NaN, NaN, NaN]"
proof -
  have h: "ieee_rounding rnd32" by (rule ieee_rounding_rnd32)
  let ?f = "\<lparr> a = Fin (- 1 / 2), b = Fin (1 / 4), xn = Fin 0, yn = Fin 8 \<rparr>"
  have two: "(2::nat) = Suc (Suc 0)" by simp
  have r1: "fst (lp1_filter_update_r rnd32 ?f (Fin 4))
            # fst (lp1_filter_update_r rnd32 (snd (lp1_filter_update_r rnd32 ?f (Fin 4))) (Fin 0))
            # fgeom_r rnd32 (fneg (a ?f))
                (fst (lp1_filter_update_r rnd32 (snd (lp1_filter_update_r rnd32 ?f (Fin 4)))
                        (Fin 0))) 2
            = [Fin 5, Fin (7 / 2), Fin (7 / 4), Fin (7 / 8)]"
    by (simp add: lp1_filter_update_r_def Let_def fsub_r_def two rnd32_values)
  have r2: "fgeom_r rnd32 (fabsf (a ?f)) (fabsf (Fin (- 7 / 2))) 2 = [Fin (7 / 4), Fin (7 / 8)]"
    by (simp add: two rnd32_values)
  let ?g = "lp1_filter_init (Fin 1) (Fin 1) (Fin 1000)"
  have r3: "fst (lp1_filter_update_r rnd32 ?g (Fin 1))
            # fst (lp1_filter_update_r rnd32 (snd (lp1_filter_update_r rnd32 ?g (Fin 1))) (Fin 0))
            # fgeom_r rnd32 (fneg (a ?g))
                (fst (lp1_filter_update_r rnd32 (snd (lp1_filter_update_r rnd32 ?g (Fin 1)))
                        (Fin 0))) 2
            = [NaN, NaN, NaN, NaN]"
    by (simp add: lp1_filter_init_NaN lp1_filter_update_r_def Let_def two)
  have t1: "fst (lp1_feed_r rnd32 ?f (Fin 4 # Fin 0 # replicate 2 (Fin 0))) =
              [Fin 5, Fin (7 / 2), Fin (7 / 4), Fin (7 / 8)]"
    using lp1_impulse_then_zero [OF h, of ?f "Fin 4" 2 "Fin (- 7 / 2)"] r1 by (simp only:)
  have t2: "map fabsf (fgeom_r rnd32 (fneg (Fin (- 1 / 2))) (Fin (- 7 / 2)) 2) =
              [Fin (7 / 4), Fin (7 / 8)]"
    using lp1_impulse_then_zero [OF h, of ?f "Fin 4" 2 "Fin (- 7 / 2)"] r2 by simp
  have t3: "fst (lp1_feed_r rnd32 ?g (Fin 1 # Fin 0 # replicate 2 (Fin 0))) =
              [NaN, NaN, NaN, NaN]"
    using lp1_impulse_then_zero [OF h, of ?g "Fin 1" 2 NaN] r3 by (simp only:)
  show ?thesis using h t1 t2 t3 by blast
qed

end
